theory Spec2Isabelle
  imports Complex_Main "HOL-Library.Log_Nat"
begin

section \<open>The typing-practice component as a state machine\<close>

text \<open>
  The repository is one React component, \<open>TypingPractice\<close>, in two variants:
  \<open>src/components/TypingPractice.tsx\<close> (with the result log and the \<open>isFinished\<close> flag) and a
  second copy, \<open>part_000\<close>, without them. The hooks of the component are the fields of a record;
  an event handler is a function from the state at the last render to the state at the next one.
  Events are delivered one at a time and the component re-renders between two of them, so the
  value a handler closes over (\<open>currentIndex\<close>, \<open>isActive\<close>) is the value in the state, and the
  functional updates \<open>setStats(prev => ...)\<close> see that same state.

  Numbers: the counters and the cursor are JavaScript Numbers that only ever hold integers,
  written here as \<open>int\<close> (exact below \<open>2^53\<close>). The two derived statistics add, divide and
  multiply Numbers, and there the arithmetic rounds to binary64; that rounding is written out
  below.

  Strings: a JavaScript string is a sequence of UTF-16 code units, and \<open>length\<close> and indexing
  count code units. A \<open>string\<close> here is a list of characters, one character for one code unit;
  the three passages are ASCII.
\<close>

subsection \<open>JavaScript Number arithmetic\<close>

definition pow2 :: "int \<Rightarrow> rat" where
  "pow2 k = (if 0 \<le> k then 2 ^ nat k else 1 / 2 ^ nat (- k))"

text \<open>The binary exponent of a positive rational: the \<open>e\<close> with \<open>2^e \<le> q < 2^(e+1)\<close>.\<close>

definition exponent :: "rat \<Rightarrow> int" where
  "exponent q = (if 1 \<le> q then bitlen \<lfloor>q\<rfloor> - 1 else - bitlen (\<lceil>1 / q\<rceil> - 1))"

definition round_half_even :: "rat \<Rightarrow> int" where
  "round_half_even m =
     (let f = \<lfloor>m\<rfloor>; r = m - of_int f
      in if r < 1 / 2 then f else if 1 / 2 < r then f + 1 else if even f then f else f + 1)"

text \<open>
  Rounding of an exact result to the nearest binary64 value, ties to even: a significand of
  53 bits at the exponent of the value. The exponent range is not bounded here: every quotient
  and product this component forms from counters below \<open>2^53\<close> is zero or normal, so neither
  overflow nor a subnormal occurs.
\<close>

definition binary64 :: "rat \<Rightarrow> rat" where
  "binary64 q =
     (if q = 0 then 0
      else let ulp = pow2 (exponent \<bar>q\<bar> - 52)
           in sgn q * of_int (round_half_even (\<bar>q\<bar> / ulp)) * ulp)"

definition Number_add :: "rat \<Rightarrow> rat \<Rightarrow> rat" where
  "Number_add x y = binary64 (x + y)"

definition Number_div :: "rat \<Rightarrow> rat \<Rightarrow> rat" where
  "Number_div x y = binary64 (x / y)"

definition Number_mul :: "rat \<Rightarrow> rat \<Rightarrow> rat" where
  "Number_mul x y = binary64 (x * y)"

text \<open>\<open>Math.round\<close>: the nearest integer, a tie going to the larger one.\<close>

definition Math_round :: "rat \<Rightarrow> int" where
  "Math_round x = \<lfloor>x + 1 / 2\<rfloor>"

subsection \<open>Data\<close>

definition TEXTS :: "string list" where
  "TEXTS =
    [''The quick brown fox jumps over the lazy dog. This is a pangram that contains every letter of the alphabet.'',
     ''Practice makes perfect. Consistent typing practice helps improve speed and accuracy significantly.'',
     ''Typing is a fundamental skill in the digital age. Learning proper fingering technique is essential.'']"

record Stats =
  elapsed :: int
  correctChars :: int
  totalChars :: int
  errors :: int
  backspaces :: int

record SavedResult =
  res_id :: string
  res_text :: string
  res_time :: int
  res_wpm :: int
  res_accuracy :: int
  res_errors :: int
  res_backspaces :: int
  res_timestamp :: string

text \<open>The fields of a \<open>KeyboardEvent\<close> that the handler reads.\<close>

record KeyboardEvent =
  key :: string
  ctrlKey :: bool
  metaKey :: bool
  altKey :: bool

text \<open>
  The hooks both variants have. \<open>currentText\<close> is declared as
  \<open>const [currentText] = useState(TEXTS[currentTextIndex])\<close>: the state cell has no setter, and
  the argument of \<open>useState\<close> is only read at the first render.
\<close>

record typing_state =
  currentTextIndex :: int
  currentText :: string
  currentIndex :: int
  stats :: Stats
  isActive :: bool

text \<open>\<open>TypingPractice.tsx\<close> adds the result log and the finished flag.\<close>

record TypingPractice_state = typing_state +
  savedResults :: "SavedResult list"
  isFinished :: bool

text \<open>What the environment supplies when a result is saved: \<open>Date.now()\<close> and
  \<open>new Date().toLocaleString()\<close>.\<close>

record clock =
  now :: nat
  localeString :: string

subsection \<open>Derived statistics\<close>

definition wpm :: "Stats \<Rightarrow> int" where
  "wpm st =
     (if elapsed st > 0
      then Math_round (Number_div (Number_div (of_int (correctChars st)) 5)
                                  (Number_div (of_int (elapsed st)) 60))
      else 0)"

definition accuracy :: "Stats \<Rightarrow> int" where
  "accuracy st =
     (let totalInput = Number_add (of_int (correctChars st)) (of_int (errors st))
      in if totalInput > 0
         then Math_round (Number_mul (Number_div (of_int (correctChars st)) totalInput) 100)
         else 100)"



subsection \<open>Strings\<close>

text \<open>\<open>s[i]\<close> on a string: the one-character string at \<open>i\<close>, or \<open>undefined\<close> out of range.\<close>

definition char_at :: "string \<Rightarrow> int \<Rightarrow> string option" where
  "char_at s i = (if 0 \<le> i \<and> i < int (length s) then Some [s ! nat i] else None)"

text \<open>\<open>s.substring(0, n)\<close>: \<open>n\<close> is clamped to the range of the string.\<close>

definition substring0 :: "string \<Rightarrow> int \<Rightarrow> string" where
  "substring0 s n = take (nat n) s"

fun decimal :: "nat \<Rightarrow> string" where
  "decimal n =
     (if n < 10 then [char_of (48 + n)] else decimal (n div 10) @ [char_of (48 + n mod 10)])"

declare decimal.simps [simp del]

subsection \<open>Handlers\<close>

definition setStats :: "(Stats \<Rightarrow> Stats) \<Rightarrow> 'a typing_state_scheme \<Rightarrow> 'a typing_state_scheme" where
  "setStats f s = s\<lparr>stats := f (stats s)\<rparr>"

definition zero_stats :: Stats where
  "zero_stats = \<lparr>elapsed = 0, correctChars = 0, totalChars = 0, errors = 0, backspaces = 0\<rparr>"

text \<open>\<open>handleKeyDown\<close> of \<open>TypingPractice.tsx\<close> (lines 67 to 111).\<close>

definition handleKeyDown :: "KeyboardEvent \<Rightarrow> 'a typing_state_scheme \<Rightarrow> 'a typing_state_scheme" where
  "handleKeyDown e s =
     (if currentIndex s \<ge> int (length (currentText s)) then s
      else
        let s1 = (if \<not> isActive s then s\<lparr>isActive := True\<rparr> else s);
            targetChar = char_at (currentText s) (currentIndex s)
        in if key e = ''Backspace'' then
             (if currentIndex s > 0
              then setStats (\<lambda>prev. prev\<lparr>backspaces := backspaces prev + 1\<rparr>)
                     (s1\<lparr>currentIndex := currentIndex s - 1\<rparr>)
              else s1)
           else if ctrlKey e \<or> metaKey e \<or> altKey e \<or> length (key e) > 1 then s1
           else if Some (key e) = targetChar then
             setStats (\<lambda>prev. prev\<lparr>correctChars := correctChars prev + 1,
                                     totalChars := totalChars prev + 1\<rparr>)
               (s1\<lparr>currentIndex := currentIndex s + 1\<rparr>)
           else
             (setStats (\<lambda>prev. prev\<lparr>errors := errors prev + 1,
                                      totalChars := totalChars prev + 1\<rparr>) s1)
               \<lparr>currentIndex := currentIndex s + 1\<rparr>)"

text \<open>\<open>handleKeyDown\<close> of the variant \<open>part_000\<close> (lines 54 to 96): the branch for a wrong
  character does not move the cursor.\<close>

definition part_000_handleKeyDown ::
  "KeyboardEvent \<Rightarrow> 'a typing_state_scheme \<Rightarrow> 'a typing_state_scheme" where
  "part_000_handleKeyDown e s =
     (if currentIndex s \<ge> int (length (currentText s)) then s
      else
        let s1 = (if \<not> isActive s then s\<lparr>isActive := True\<rparr> else s);
            targetChar = char_at (currentText s) (currentIndex s)
        in if key e = ''Backspace'' then
             (if currentIndex s > 0
              then setStats (\<lambda>prev. prev\<lparr>backspaces := backspaces prev + 1\<rparr>)
                     (s1\<lparr>currentIndex := currentIndex s - 1\<rparr>)
              else s1)
           else if ctrlKey e \<or> metaKey e \<or> altKey e \<or> length (key e) > 1 then s1
           else if Some (key e) = targetChar then
             setStats (\<lambda>prev. prev\<lparr>correctChars := correctChars prev + 1,
                                     totalChars := totalChars prev + 1\<rparr>)
               (s1\<lparr>currentIndex := currentIndex s + 1\<rparr>)
           else
             setStats (\<lambda>prev. prev\<lparr>errors := errors prev + 1,
                                     totalChars := totalChars prev + 1\<rparr>) s1)"

text \<open>The timer effect: an interval exists while \<open>isActive && currentIndex > 0\<close>, and each of
  its ticks adds one second.\<close>

definition timer_tick :: "'a typing_state_scheme \<Rightarrow> 'a typing_state_scheme" where
  "timer_tick s =
     (if isActive s \<and> currentIndex s > 0
      then setStats (\<lambda>prev. prev\<lparr>elapsed := elapsed prev + 1\<rparr>) s
      else s)"

text \<open>The auto-end effect of \<open>TypingPractice.tsx\<close> (lines 119 to 138).\<close>

definition autoEnd :: "clock \<Rightarrow> TypingPractice_state \<Rightarrow> TypingPractice_state" where
  "autoEnd clk s =
     (if currentIndex s \<ge> int (length (currentText s)) \<and> isActive s \<and> \<not> isFinished s then
        (if elapsed (stats s) > 0 \<or> currentIndex s > 0 then
           let newResult =
                 \<lparr>res_id = decimal (now clk),
                  res_text = substring0 (currentText s) (currentIndex s),
                  res_time = elapsed (stats s),
                  res_wpm = wpm (stats s),
                  res_accuracy = accuracy (stats s),
                  res_errors = errors (stats s),
                  res_backspaces = backspaces (stats s),
                  res_timestamp = localeString clk\<rparr>
           in s\<lparr>savedResults := newResult # savedResults s, isFinished := True, isActive := False\<rparr>
         else s)
      else s)"

definition handleReset :: "TypingPractice_state \<Rightarrow> TypingPractice_state" where
  "handleReset s = s\<lparr>currentIndex := 0, stats := zero_stats, isActive := False, isFinished := False\<rparr>"

definition handleSelectText :: "int \<Rightarrow> TypingPractice_state \<Rightarrow> TypingPractice_state" where
  "handleSelectText index s = handleReset (s\<lparr>currentTextIndex := index\<rparr>)"

definition isCompleted :: "'a typing_state_scheme \<Rightarrow> bool" where
  "isCompleted s = (currentIndex s \<ge> int (length (currentText s)))"

subsection \<open>Sessions\<close>

text \<open>The state at the first render, for the passage the component binds there.\<close>

definition fresh :: "string \<Rightarrow> TypingPractice_state" where
  "fresh passage =
     \<lparr>currentTextIndex = 0, currentText = passage, currentIndex = 0, stats = zero_stats,
      isActive = False, savedResults = [], isFinished = False\<rparr>"

text \<open>The component as it is mounted: \<open>currentTextIndex\<close> is 0 and the text is \<open>TEXTS[0]\<close>.\<close>

definition mounted :: TypingPractice_state where
  "mounted = fresh (TEXTS ! 0)"

text \<open>
  The events of a session: a key-down, a tick of the interval, and a render with nothing else
  happening. After each of them the component renders and the auto-end effect runs; a second
  run of the effect on its own output changes nothing, so one run stands for all of them.
\<close>

datatype event = KeyDown KeyboardEvent | Tick | Render

fun deliver :: "event \<Rightarrow> TypingPractice_state \<Rightarrow> TypingPractice_state" where
  "deliver (KeyDown e) s = handleKeyDown e s"
| "deliver Tick s = timer_tick s"
| "deliver Render s = s"

definition step :: "clock \<times> event \<Rightarrow> TypingPractice_state \<Rightarrow> TypingPractice_state" where
  "step ce s = autoEnd (fst ce) (deliver (snd ce) s)"

fun run :: "(clock \<times> event) list \<Rightarrow> TypingPractice_state \<Rightarrow> TypingPractice_state" where
  "run [] s = s"
| "run (ce # rest) s = run rest (step ce s)"

text \<open>A key pressed with no modifier held.\<close>

definition plain_key :: "string \<Rightarrow> KeyboardEvent" where
  "plain_key k = \<lparr>key = k, ctrlKey = False, metaKey = False, altKey = False\<rparr>"

text \<open>A fixed reading of the clock, and a key pressed at that reading.\<close>

definition epoch :: clock where
  "epoch = \<lparr>now = 0, localeString = []\<rparr>"

definition press :: "string \<Rightarrow> clock \<times> event" where
  "press k = (epoch, KeyDown (plain_key k))"

text \<open>The key \<open>c\<close> pressed with Control held.\<close>

definition ctrl_c :: KeyboardEvent where
  "ctrl_c = \<lparr>key = ''c'', ctrlKey = True, metaKey = False, altKey = False\<rparr>"

section \<open>The rounding of Numbers\<close>










section \<open>What each handler does to each field\<close>

lemmas handler_defs = handleKeyDown_def part_000_handleKeyDown_def timer_tick_def setStats_def

lemmas session_defs = fresh_def zero_stats_def step_def plain_key_def press_def epoch_def
  autoEnd_def char_at_def

lemma handleKeyDown_currentText: "currentText (handleKeyDown e s) = currentText s"
  by (simp add: handler_defs Let_def)

lemma handleKeyDown_currentIndex:
  "currentIndex (handleKeyDown e s) =
     (if currentIndex s \<ge> int (length (currentText s)) then currentIndex s
      else if key e = ''Backspace'' then (if currentIndex s > 0 then currentIndex s - 1 else currentIndex s)
      else if ctrlKey e \<or> metaKey e \<or> altKey e \<or> length (key e) > 1 then currentIndex s
      else currentIndex s + 1)"
  by (simp add: handler_defs Let_def)

lemma handleKeyDown_stats:
  "stats (handleKeyDown e s) =
     (if currentIndex s \<ge> int (length (currentText s)) then stats s
      else if key e = ''Backspace'' then
        (if currentIndex s > 0 then (stats s)\<lparr>backspaces := backspaces (stats s) + 1\<rparr> else stats s)
      else if ctrlKey e \<or> metaKey e \<or> altKey e \<or> length (key e) > 1 then stats s
      else if Some (key e) = char_at (currentText s) (currentIndex s) then
        (stats s)\<lparr>correctChars := correctChars (stats s) + 1, totalChars := totalChars (stats s) + 1\<rparr>
      else (stats s)\<lparr>errors := errors (stats s) + 1, totalChars := totalChars (stats s) + 1\<rparr>)"
  by (simp add: handler_defs Let_def)

lemma handleKeyDown_isActive:
  "isActive (handleKeyDown e s) = (isActive s \<or> currentIndex s < int (length (currentText s)))"
  by (auto simp add: handler_defs Let_def)

lemma handleKeyDown_more: "typing_state.more (handleKeyDown e s) = typing_state.more s"
  by (simp add: handler_defs Let_def)

lemma handleKeyDown_currentTextIndex: "currentTextIndex (handleKeyDown e s) = currentTextIndex s"
  by (simp add: handler_defs Let_def)

lemma autoEnd_currentIndex: "currentIndex (autoEnd clk s) = currentIndex s"
  by (simp add: autoEnd_def Let_def)

lemma autoEnd_stats: "stats (autoEnd clk s) = stats s"
  by (simp add: autoEnd_def Let_def)

lemma autoEnd_currentText: "currentText (autoEnd clk s) = currentText s"
  by (simp add: autoEnd_def Let_def)

lemma deliver_currentText: "currentText (deliver ev s) = currentText s"
  by (cases ev) (simp_all add: handler_defs Let_def)

lemma deliver_isFinished: "isFinished (deliver ev s) = isFinished s"
  by (cases ev) (simp_all add: handler_defs Let_def)

lemma deliver_savedResults: "savedResults (deliver ev s) = savedResults s"
  by (cases ev) (simp_all add: handler_defs Let_def)

lemma step_currentText: "currentText (step ce s) = currentText s"
  by (simp add: step_def autoEnd_currentText deliver_currentText)

lemma step_currentIndex: "currentIndex (step ce s) = currentIndex (deliver (snd ce) s)"
  by (simp add: step_def autoEnd_currentIndex)

lemma step_stats: "stats (step ce s) = stats (deliver (snd ce) s)"
  by (simp add: step_def autoEnd_stats)

section \<open>Invariants of a session\<close>

text \<open>A property of the first state that every step keeps holds after every run.\<close>

lemma run_invariant:
  assumes "P s" and "\<And>ce t. P t \<Longrightarrow> P (step ce t)"
  shows "P (run evs s)"
  using assms(1)
proof (induction evs arbitrary: s)
  case Nil
  then show ?case by simp
next
  case (Cons ce rest)
  then show ?case by (simp add: assms(2))
qed

lemma run_currentText: "currentText (run evs s) = currentText s"
  by (induction evs arbitrary: s) (simp_all add: step_currentText)

lemma deliver_cursor_range:
  assumes "0 \<le> currentIndex s" and "currentIndex s \<le> int (length (currentText s))"
  shows "0 \<le> currentIndex (deliver ev s) \<and> currentIndex (deliver ev s) \<le> int (length (currentText s))"
proof (cases ev)
  case (KeyDown e)
  then show ?thesis using assms by (simp add: handleKeyDown_currentIndex)
next
  case Tick
  then show ?thesis using assms by (simp add: timer_tick_def setStats_def)
next
  case Render
  then show ?thesis using assms by simp
qed

text \<open>
  Claim C7. In every state reached from a fresh session on any passage by any sequence of
  key-down, tick and render events, the cursor \<open>currentIndex\<close> is at least 0 and at most the
  length of the passage. The cursor is an \<open>int\<close> here, so the lower bound is a fact about the
  guard \<open>currentIndex > 0\<close> of the Backspace branch and not about the type.
\<close>

theorem cursor_in_range:
  "0 \<le> currentIndex (run evs (fresh passage)) \<and>
   currentIndex (run evs (fresh passage)) \<le> int (length passage)"
proof -
  let ?P = "\<lambda>t :: TypingPractice_state.
              0 \<le> currentIndex t \<and> currentIndex t \<le> int (length (currentText t))"
  have "?P (fresh passage)" by (simp add: fresh_def)
  then have "?P (run evs (fresh passage))"
  proof (rule run_invariant)
    fix ce :: "clock \<times> event" and t :: TypingPractice_state
    assume "?P t"
    then show "?P (step ce t)"
      using deliver_cursor_range [of t "snd ce"] by (simp add: step_currentIndex step_currentText)
  qed
  then show ?thesis by (simp add: run_currentText fresh_def)
qed

text \<open>Every key that is typed moves the cursor forward and is counted as correct or as an
  error; every Backspace that moves it back is counted too.\<close>

lemma deliver_balance:
  assumes "correctChars (stats s) + errors (stats s) = currentIndex s + backspaces (stats s)"
  shows "correctChars (stats (deliver ev s)) + errors (stats (deliver ev s))
         = currentIndex (deliver ev s) + backspaces (stats (deliver ev s))"
proof (cases ev)
  case (KeyDown e)
  then show ?thesis using assms by (simp add: handleKeyDown_currentIndex handleKeyDown_stats)
next
  case Tick
  then show ?thesis using assms by (simp add: timer_tick_def setStats_def)
next
  case Render
  then show ?thesis using assms by simp
qed

lemma run_balance:
  "correctChars (stats (run evs (fresh passage))) + errors (stats (run evs (fresh passage)))
   = currentIndex (run evs (fresh passage)) + backspaces (stats (run evs (fresh passage)))"
proof -
  let ?P = "\<lambda>t :: TypingPractice_state.
              correctChars (stats t) + errors (stats t) = currentIndex t + backspaces (stats t)"
  have "?P (fresh passage)" by (simp add: fresh_def zero_stats_def)
  then show "?P (run evs (fresh passage))"
  proof (rule run_invariant)
    fix ce :: "clock \<times> event" and t :: TypingPractice_state
    assume "?P t"
    then show "?P (step ce t)"
      using deliver_balance [of t "snd ce"] by (simp add: step_currentIndex step_stats)
  qed
qed

lemma deliver_errors_nonneg:
  assumes "0 \<le> errors (stats s)"
  shows "0 \<le> errors (stats (deliver ev s))"
proof (cases ev)
  case (KeyDown e)
  then show ?thesis using assms by (simp add: handleKeyDown_stats)
next
  case Tick
  then show ?thesis using assms by (simp add: timer_tick_def setStats_def)
next
  case Render
  then show ?thesis using assms by simp
qed

lemma run_errors_nonneg: "0 \<le> errors (stats (run evs (fresh passage)))"
proof -
  have "0 \<le> errors (stats (fresh passage))" by (simp add: fresh_def zero_stats_def)
  then show ?thesis
  proof (rule run_invariant)
    fix ce :: "clock \<times> event" and t :: TypingPractice_state
    assume "0 \<le> errors (stats t)"
    then show "0 \<le> errors (stats (step ce t))"
      using deliver_errors_nonneg [of t "snd ce"] by (simp add: step_stats)
  qed
qed

text \<open>
  Claim C2, as amended. In every state reached from a fresh session by any sequence of
  key-down, tick and render events, \<open>correctChars \<le> currentIndex + backspaces\<close>: the cursor can
  fall behind the count of correct keys only by the number of Backspaces that moved it.
\<close>

theorem correct_le_cursor_plus_backspaces:
  "correctChars (stats (run evs (fresh passage)))
   \<le> currentIndex (run evs (fresh passage)) + backspaces (stats (run evs (fresh passage)))"
  using run_balance [of evs passage] run_errors_nonneg [of evs passage] by linarith

text \<open>
  Claim C2 as the specification states it (\<open>correctChars \<le> currentIndex\<close> in every reachable
  state) fails: on the first passage, the correct key \<open>T\<close> followed by Backspace leaves one
  correct character counted and the cursor back at 0.
\<close>

theorem correct_le_cursor_counterexample:
  "correctChars (stats (run [press ''T'', press ''Backspace''] mounted)) = 1 \<and>
   currentIndex (run [press ''T'', press ''Backspace''] mounted) = 0 \<and>
   \<not> correctChars (stats (run [press ''T'', press ''Backspace''] mounted))
       \<le> currentIndex (run [press ''T'', press ''Backspace''] mounted)"
  by (simp add: mounted_def TEXTS_def session_defs handler_defs Let_def)

section \<open>Single operations\<close>

text \<open>
  Claim C9. A Backspace key-down that arrives while the cursor is at 0 leaves the cursor at 0
  and leaves \<open>correctChars\<close>, \<open>errors\<close> and \<open>backspaces\<close> as they were (the whole \<open>stats\<close>
  record, in fact): the count of Backspaces does not grow on a Backspace that moves nothing.
  This holds for the handler alone and for the handler followed by the auto-end effect.
\<close>

theorem backspace_at_start:
  assumes "key e = ''Backspace''" and "currentIndex s = 0"
  shows "currentIndex (step (clk, KeyDown e) s) = 0 \<and>
         correctChars (stats (step (clk, KeyDown e) s)) = correctChars (stats s) \<and>
         errors (stats (step (clk, KeyDown e) s)) = errors (stats s) \<and>
         backspaces (stats (step (clk, KeyDown e) s)) = backspaces (stats s) \<and>
         currentIndex (handleKeyDown e s) = 0 \<and> stats (handleKeyDown e s) = stats s"
  using assms by (simp add: step_currentIndex step_stats handleKeyDown_currentIndex handleKeyDown_stats)

theorem backspace_at_start_witness:
  "key (plain_key ''Backspace'') = ''Backspace'' \<and> currentIndex mounted = 0 \<and>
   currentIndex (step (press ''Backspace'') mounted) = 0 \<and>
   backspaces (stats (step (press ''Backspace'') mounted)) = 0 \<and>
   isActive (step (press ''Backspace'') mounted)"
  using backspace_at_start [of "plain_key ''Backspace''" mounted epoch]
  by (simp add: mounted_def TEXTS_def session_defs handler_defs Let_def)

text \<open>
  Claim C10. \<open>handleReset\<close> leaves the result log as it was, and clears the cursor, every
  counter of \<open>stats\<close>, and the flags \<open>isActive\<close> and \<open>isFinished\<close>.
\<close>

theorem handleReset_keeps_log:
  "savedResults (handleReset s) = savedResults s \<and>
   currentIndex (handleReset s) = 0 \<and>
   stats (handleReset s) =
     \<lparr>elapsed = 0, correctChars = 0, totalChars = 0, errors = 0, backspaces = 0\<rparr> \<and>
   \<not> isActive (handleReset s) \<and> \<not> isFinished (handleReset s)"
  by (simp add: handleReset_def zero_stats_def)

text \<open>One correct key of two typed: the quotient, the product and the rounding are all exact.\<close>

lemma accuracy_half:
  "accuracy \<lparr>elapsed = 0, correctChars = 1, totalChars = 2, errors = 1, backspaces = 0\<rparr> = 50"
  by code_simp

lemma stats_after_x_b:
  "stats (run [press ''x'', press ''b''] (fresh ''ab'')) =
     \<lparr>elapsed = 0, correctChars = 1, totalChars = 2, errors = 1, backspaces = 0\<rparr>"
  by (simp add: session_defs handler_defs Let_def)

text \<open>
  Claim C5. A session on the passage \<open>ab\<close> that receives the keys \<open>x\<close> and then \<open>b\<close> ends
  with the cursor at 2, one correct character, one error, an accuracy of 50 and the passage
  completed; the wrong key \<open>x\<close> alone already moves the cursor to 1 and counts one error.
\<close>

theorem wrong_then_right:
  "currentIndex (run [press ''x'', press ''b''] (fresh ''ab'')) = 2 \<and>
   correctChars (stats (run [press ''x'', press ''b''] (fresh ''ab''))) = 1 \<and>
   errors (stats (run [press ''x'', press ''b''] (fresh ''ab''))) = 1 \<and>
   accuracy (stats (run [press ''x'', press ''b''] (fresh ''ab''))) = 50 \<and>
   isCompleted (run [press ''x'', press ''b''] (fresh ''ab'')) \<and>
   currentIndex (run [press ''x''] (fresh ''ab'')) = 1 \<and>
   errors (stats (run [press ''x''] (fresh ''ab''))) = 1"
proof -
  let ?s = "run [press ''x'', press ''b''] (fresh ''ab'')"
  have cursor: "currentIndex ?s = 2"
    by (simp add: session_defs handler_defs Let_def)
  have counters: "correctChars (stats ?s) = 1 \<and> errors (stats ?s) = 1"
    by (simp only: stats_after_x_b Stats.simps)
  have acc: "accuracy (stats ?s) = 50"
    by (simp only: stats_after_x_b accuracy_half)
  have complete: "isCompleted ?s"
    by (simp add: isCompleted_def session_defs handler_defs Let_def)
  have first: "currentIndex (run [press ''x''] (fresh ''ab'')) = 1 \<and>
               errors (stats (run [press ''x''] (fresh ''ab''))) = 1"
    by (simp add: session_defs handler_defs Let_def)
  from cursor counters acc complete first show ?thesis by blast
qed

text \<open>
  Claim C1 does not hold of the code. \<open>handleSelectText\<close> stores the index and resets the
  session, but \<open>currentText\<close> has no setter: after \<open>handleSelectText 1\<close> on the mounted component
  the index is 1 and the text that is rendered and compared is still the first passage. The
  next key shows it: \<open>P\<close>, the first character of the second passage, is counted as an error,
  and \<open>T\<close>, the first character of the first passage, as correct.
\<close>

theorem select_text_keeps_first_passage:
  "currentTextIndex (handleSelectText 1 mounted) = 1 \<and>
   currentText (handleSelectText 1 mounted) = TEXTS ! 0 \<and>
   currentText (handleSelectText 1 mounted) \<noteq> TEXTS ! 1 \<and>
   errors (stats (step (press ''P'') (handleSelectText 1 mounted))) = 1 \<and>
   correctChars (stats (step (press ''T'') (handleSelectText 1 mounted))) = 1"
  by (simp add: handleSelectText_def handleReset_def mounted_def TEXTS_def session_defs
      handler_defs Let_def)

section \<open>Keys the handler passes over\<close>

lemma autoEnd_not_completed:
  "currentIndex s < int (length (currentText s)) \<Longrightarrow> autoEnd clk s = s"
  by (simp add: autoEnd_def)

text \<open>
  Claim C3, as amended. While the cursor is before the end of the passage, a key-down other
  than Backspace that carries one of the modifiers ctrl, meta or alt, or whose key name is
  longer than one character, changes nothing but \<open>isActive\<close>, which it sets: the cursor, every
  counter, the elapsed time, \<open>isFinished\<close>, the text and the result log keep their values, and
  a session that was active already is unchanged as a whole.
\<close>

theorem ignored_key_only_activates:
  assumes "currentIndex s < int (length (currentText s))"
    and "key e \<noteq> ''Backspace''"
    and "ctrlKey e \<or> metaKey e \<or> altKey e \<or> length (key e) > 1"
  shows "handleKeyDown e s = s\<lparr>isActive := True\<rparr> \<and>
         step (clk, KeyDown e) s = s\<lparr>isActive := True\<rparr> \<and>
         (isActive s \<longrightarrow> step (clk, KeyDown e) s = s)"
proof -
  have h: "handleKeyDown e s = s\<lparr>isActive := True\<rparr>"
    using assms by (auto simp add: handleKeyDown_def Let_def)
  have "autoEnd clk (s\<lparr>isActive := True\<rparr>) = s\<lparr>isActive := True\<rparr>"
    using assms(1) by (simp add: autoEnd_not_completed)
  with h have st: "step (clk, KeyDown e) s = s\<lparr>isActive := True\<rparr>"
    by (simp add: step_def)
  have "isActive s \<Longrightarrow> s\<lparr>isActive := True\<rparr> = s" by simp
  with h st show ?thesis by simp
qed

theorem ignored_key_only_activates_witness:
  "currentIndex mounted < int (length (currentText mounted)) \<and>
   key ctrl_c \<noteq> ''Backspace'' \<and> ctrlKey ctrl_c \<and>
   handleKeyDown ctrl_c mounted = mounted\<lparr>isActive := True\<rparr> \<and>
   step (epoch, KeyDown ctrl_c) mounted = mounted\<lparr>isActive := True\<rparr>"
  using ignored_key_only_activates [of mounted ctrl_c epoch]
  by (simp add: mounted_def TEXTS_def fresh_def ctrl_c_def)

text \<open>
  Claim C3 as the specification states it (such a key leaves the whole state, the active flag
  included, unchanged) fails twice. On the mounted component, where the cursor is 0 and the
  passage is not empty, Control with \<open>c\<close> turns \<open>isActive\<close> from false to true: the handler
  sets the flag before it looks at the key. And Backspace, whose key name is not a single
  character, moves the cursor from 1 back to 0.
\<close>

theorem ignored_key_counterexample:
  "currentIndex mounted < int (length (currentText mounted)) \<and> ctrlKey ctrl_c \<and>
   \<not> isActive mounted \<and> isActive (handleKeyDown ctrl_c mounted) \<and>
   handleKeyDown ctrl_c mounted \<noteq> mounted \<and>
   currentIndex (step (press ''T'') mounted)
     < int (length (currentText (step (press ''T'') mounted))) \<and>
   length (key (plain_key ''Backspace'')) \<noteq> 1 \<and>
   currentIndex (step (press ''T'') mounted) = 1 \<and>
   currentIndex (handleKeyDown (plain_key ''Backspace'') (step (press ''T'') mounted)) = 0"
proof -
  have flag: "\<not> isActive mounted \<and> isActive (handleKeyDown ctrl_c mounted)"
    by (simp add: mounted_def TEXTS_def fresh_def ctrl_c_def handler_defs Let_def)
  then have changed: "handleKeyDown ctrl_c mounted \<noteq> mounted" by metis
  have before_end: "currentIndex mounted < int (length (currentText mounted)) \<and> ctrlKey ctrl_c"
    by (simp add: mounted_def TEXTS_def fresh_def ctrl_c_def)
  have moved: "currentIndex (step (press ''T'') mounted) = 1 \<and>
    currentIndex (step (press ''T'') mounted)
      < int (length (currentText (step (press ''T'') mounted))) \<and>
    length (key (plain_key ''Backspace'')) \<noteq> 1 \<and>
    currentIndex (handleKeyDown (plain_key ''Backspace'') (step (press ''T'') mounted)) = 0"
    by (simp add: mounted_def TEXTS_def session_defs handler_defs Let_def)
  from flag changed before_end moved show ?thesis by blast
qed

section \<open>The two variants of the key handler\<close>

text \<open>
  Claim C6. There is a state and a printable key on which the two handlers leave different
  cursors: on the mounted component the key \<open>x\<close> gives cursor 1 in \<open>TypingPractice.tsx\<close> and
  cursor 0 in \<open>part_000\<close>. In general, on a key with no modifier and at most one character
  that differs from the character under the cursor, the first handler moves the cursor
  forward by one and the second leaves it; on Backspace and on a key that matches, the two
  handlers return the same state.
\<close>

theorem variants_differ_on_mismatch_only:
  "currentIndex (handleKeyDown (plain_key ''x'') mounted) = 1 \<and>
   currentIndex (part_000_handleKeyDown (plain_key ''x'') mounted) = 0 \<and>
   (currentIndex s < int (length (currentText s)) \<and>
      \<not> ctrlKey e \<and> \<not> metaKey e \<and> \<not> altKey e \<and> length (key e) \<le> 1 \<and>
      Some (key e) \<noteq> char_at (currentText s) (currentIndex s)
    \<longrightarrow> currentIndex (handleKeyDown e s) = currentIndex s + 1 \<and>
        currentIndex (part_000_handleKeyDown e s) = currentIndex s) \<and>
   (key e' = ''Backspace'' \<or> Some (key e') = char_at (currentText s') (currentIndex s')
    \<longrightarrow> handleKeyDown e' s' = part_000_handleKeyDown e' s')"
proof -
  have differ: "currentIndex (handleKeyDown (plain_key ''x'') mounted) = 1 \<and>
        currentIndex (part_000_handleKeyDown (plain_key ''x'') mounted) = 0"
    by (simp add: mounted_def TEXTS_def session_defs handler_defs Let_def)
  have mismatch: "currentIndex s < int (length (currentText s)) \<and>
      \<not> ctrlKey e \<and> \<not> metaKey e \<and> \<not> altKey e \<and> length (key e) \<le> 1 \<and>
      Some (key e) \<noteq> char_at (currentText s) (currentIndex s)
    \<longrightarrow> currentIndex (handleKeyDown e s) = currentIndex s + 1 \<and>
        currentIndex (part_000_handleKeyDown e s) = currentIndex s"
    by (auto simp add: handler_defs Let_def)
  have agree: "key e' = ''Backspace'' \<or> Some (key e') = char_at (currentText s') (currentIndex s')
    \<longrightarrow> handleKeyDown e' s' = part_000_handleKeyDown e' s'"
    by (auto simp add: handler_defs Let_def)
  from differ mismatch agree show ?thesis by blast
qed

theorem variants_differ_on_mismatch_only_witness:
  "currentIndex mounted < int (length (currentText mounted)) \<and>
   Some (key (plain_key ''x'')) \<noteq> char_at (currentText mounted) (currentIndex mounted) \<and>
   currentIndex (handleKeyDown (plain_key ''x'') mounted) = 1 \<and>
   currentIndex (part_000_handleKeyDown (plain_key ''x'') mounted) = 0 \<and>
   Some (key (plain_key ''T'')) = char_at (currentText mounted) (currentIndex mounted) \<and>
   handleKeyDown (plain_key ''T'') mounted = part_000_handleKeyDown (plain_key ''T'') mounted \<and>
   handleKeyDown (plain_key ''Backspace'') mounted
     = part_000_handleKeyDown (plain_key ''Backspace'') mounted"
  using variants_differ_on_mismatch_only
          [where s = mounted and e = "plain_key ''x''" and s' = mounted and e' = "plain_key ''T''"]
        variants_differ_on_mismatch_only
          [where s = mounted and e = "plain_key ''x''" and s' = mounted
             and e' = "plain_key ''Backspace''"]
  by (simp add: mounted_def TEXTS_def fresh_def plain_key_def char_at_def)

section \<open>The result log\<close>

lemma autoEnd_finished: "isFinished s \<Longrightarrow> autoEnd clk s = s"
  by (simp add: autoEnd_def)

text \<open>The effect either does nothing, or finds the session unfinished, finishes it and puts
  one result in front of the log.\<close>

lemma autoEnd_log:
  "(autoEnd clk s = s) \<or>
   (\<not> isFinished s \<and> isFinished (autoEnd clk s) \<and>
    (\<exists>r. savedResults (autoEnd clk s) = r # savedResults s))"
  by (simp add: autoEnd_def Let_def)

lemma step_finished:
  assumes "isFinished s"
  shows "isFinished (step ce s) \<and> savedResults (step ce s) = savedResults s"
proof -
  have "isFinished (deliver (snd ce) s)" using assms by (simp add: deliver_isFinished)
  then have "autoEnd (fst ce) (deliver (snd ce) s) = deliver (snd ce) s"
    by (rule autoEnd_finished)
  then show ?thesis
    using assms by (simp add: step_def deliver_isFinished deliver_savedResults)
qed

lemma step_log:
  "(isFinished (step ce s) = isFinished s \<and> savedResults (step ce s) = savedResults s) \<or>
   (\<not> isFinished s \<and> isFinished (step ce s) \<and>
    (\<exists>r. savedResults (step ce s) = r # savedResults s))"
  using autoEnd_log [of "fst ce" "deliver (snd ce) s"]
  by (auto simp add: step_def deliver_isFinished deliver_savedResults)

lemma run_finished:
  "isFinished s \<Longrightarrow> isFinished (run evs s) \<and> savedResults (run evs s) = savedResults s"
proof (induction evs arbitrary: s)
  case Nil
  then show ?case by simp
next
  case (Cons ce rest)
  from Cons.prems have fin: "isFinished (step ce s)"
    and same: "savedResults (step ce s) = savedResults s"
    using step_finished [of s ce] by simp_all
  from Cons.IH [OF fin] same show ?case by simp
qed

lemma run_log:
  "\<exists>added. savedResults (run evs s) = added @ savedResults s \<and> length added \<le> 1"
proof (induction evs arbitrary: s)
  case Nil
  then show ?case by simp
next
  case (Cons ce rest)
  consider (quiet) "savedResults (step ce s) = savedResults s"
    | (fired) r where "isFinished (step ce s)" "savedResults (step ce s) = r # savedResults s"
    using step_log [of ce s] by blast
  then show ?case
  proof cases
    case quiet
    from Cons.IH [of "step ce s"] quiet show ?thesis by simp
  next
    case fired
    from run_finished [OF fired(1), of rest] fired(2)
    have "savedResults (run (ce # rest) s) = [r] @ savedResults s" by simp
    then show ?thesis by (intro exI [of _ "[r]"]) simp
  qed
qed

lemma finished_ab:
  "isFinished (run [press ''x'', press ''b''] (fresh ''ab'')) \<and>
   length (savedResults (run [press ''x'', press ''b''] (fresh ''ab''))) = 1"
  by (simp add: session_defs handler_defs Let_def)

text \<open>
  Claim C4. Over any sequence of key-down, tick and render events (the auto-end effect running
  after each), whatever the state the session starts in, the result log grows by at most one
  entry, at its front; and from a state with \<open>isFinished\<close> set, the session stays finished and
  the log stays as it is. Only \<open>handleReset\<close> clears \<open>isFinished\<close>.
\<close>

theorem at_most_one_summary:
  "(\<exists>added. savedResults (run evs s) = added @ savedResults s \<and> length added \<le> 1) \<and>
   (isFinished s \<longrightarrow> isFinished (run evs s) \<and> savedResults (run evs s) = savedResults s)"
  using run_log [of evs s] run_finished [of s evs] by blast

theorem at_most_one_summary_witness:
  "isFinished (run [press ''x'', press ''b''] (fresh ''ab'')) \<and>
   length (savedResults (run [press ''x'', press ''b''] (fresh ''ab''))) = 1 \<and>
   length (savedResults (run [press ''a'', (epoch, Tick), (epoch, Render), press ''Backspace'']
                          (run [press ''x'', press ''b''] (fresh ''ab'')))) = 1"
  using at_most_one_summary
          [of "[press ''a'', (epoch, Tick), (epoch, Render), press ''Backspace'']"
              "run [press ''x'', press ''b''] (fresh ''ab'')"]
        finished_ab
  by (simp del: run.simps)

section \<open>Accuracy\<close>















text \<open>Above \<open>2^53\<close> the sum of the counters is itself rounded, as the Number addition of the code
  rounds it.\<close>

lemma accuracy_rounds_the_sum:
  "accuracy \<lparr>elapsed = 0, correctChars = 2 ^ 50, totalChars = 0, errors = 7881299347898369,
             backspaces = 0\<rparr> = 13"
  by code_simp

end
